theory Spec2Isabelle
  imports Complex_Main
begin

section \<open>Data model\<close>

text \<open>
  The development follows \<^verbatim>\<open>src/vrft/vrft/vrft_algo.py\<close>. Python floats are read as
  real numbers: every arithmetic statement below is a statement of exact arithmetic,
  and nothing is said about rounding.

  The class \<^verbatim>\<open>iddata\<close> comes from \<^verbatim>\<open>vrft.utilities.iddata\<close>; the code reads its
  attributes \<^verbatim>\<open>y\<close>, \<^verbatim>\<open>u\<close> and \<^verbatim>\<open>ts\<close>, and the
  tests build it as \<^verbatim>\<open>iddata(y, u, ts, y0)\<close>. A \<^verbatim>\<open>ctl.TransferFunction\<close> of
  the control library keeps \<^verbatim>\<open>num\<close> and \<^verbatim>\<open>den\<close> as lists of lists of coefficient
  arrays, one array for every pair of an output and an input, and has a sampling period.
\<close>

record iddata =
  data_y :: "real list"
  data_u :: "real list"
  data_ts :: real
  data_y0 :: "real list"

record transfer_function =
  tf_num :: "real list list list"
  tf_den :: "real list list list"
  tf_dt :: real

text \<open>
  The Python values that can reach the entry points as arguments or results;
  \<open>PyArray\<close> is a one-dimensional numpy array, \<open>PyArray0\<close> one of dimension zero
  (\<^verbatim>\<open>np.array(2)\<close>).
\<close>

datatype pyobj =
    Iddata iddata
  | TransferFunction transfer_function
  | PyList "pyobj list"
  | PyTuple "pyobj list"
  | PyArray "real list"
  | PyArray0 real
  | PyFloat real
  | PyInt int
  | PyNone

text \<open>
  Exceptions, with their argument tuples. The specification's \<^verbatim>\<open>ValidationError\<close> is
  the code's \<^verbatim>\<open>ValueError\<close>, its \<^verbatim>\<open>NumericalError\<close> is
  \<^verbatim>\<open>numpy.linalg.LinAlgError\<close>.
\<close>

datatype error =
    ValueError "string list"
  | NameError "string list"
  | TypeError "string list"
  | IndexError "string list"
  | AttributeError "string list"
  | ZeroDivisionError "string list"
  | LinAlgError "string list"
  | IndentationError "string list"

text \<open>A numpy array of one or two dimensions; a \<^verbatim>\<open>np.matrix\<close> with its shape.\<close>

datatype ndarray = Arr1 "real list" | Arr2 "real list list"

datatype matrix = Mat (nrows: nat) (ncols: nat) (rows: "real list list")

section \<open>The numpy operations the module calls\<close>

text \<open>
  \<^verbatim>\<open>np.arange(start, stop, step)\<close> has \<open>\<lceil>(stop - start) / step\<rceil>\<close> points (none when that
  is negative); a zero step raises \<^verbatim>\<open>ZeroDivisionError\<close>. The arguments are the numbers
  the floats stand for and the quotient is the exact one: numpy rounds the quotient to a
  double before it takes the ceiling, so its count can be one more than the count here.
  No statement below depends on the count, the 400 points of one concrete grid apart.
\<close>

definition np_arange :: "real \<Rightarrow> real \<Rightarrow> real \<Rightarrow> error + real list" where
  "np_arange start stop step =
     (if step = 0 then Inl (ZeroDivisionError [''division by zero''])
      else Inr (map (\<lambda>i. start + real i * step)
                  [0 ..< nat \<lceil>(stop - start) / step\<rceil>]))"

text \<open>
  \<^verbatim>\<open>np.zeros(shape, dtype=float)\<close>: the first positional argument is the shape (an integer
  or a tuple), the second is the element type. An integer in the second position is not a
  data type, and numpy raises \<^verbatim>\<open>TypeError\<close>.
\<close>

datatype shape_arg = ShapeInt nat | ShapePair nat nat

datatype dtype_arg = DtypeDefault | DtypeFloat | DtypeIntObj nat

fun np_zeros :: "shape_arg \<Rightarrow> dtype_arg \<Rightarrow> error + ndarray" where
  "np_zeros s (DtypeIntObj n) = Inl (TypeError [''Cannot interpret the integer as a data type''])"
| "np_zeros (ShapeInt k) d = Inr (Arr1 (replicate k 0))"
| "np_zeros (ShapePair k n) d = Inr (Arr2 (replicate k (replicate n 0)))"

text \<open>
  \<^verbatim>\<open>phi[i, :] = y\<close>: two indices need a two-dimensional array, the row must exist, and
  \<^verbatim>\<open>y\<close> must have the length of a row (or a single element, which is broadcast).
\<close>

fun set_row :: "ndarray \<Rightarrow> nat \<Rightarrow> real list \<Rightarrow> error + ndarray" where
  "set_row (Arr1 xs) i ys = Inl (IndexError [''too many indices for array''])"
| "set_row (Arr2 rs) i ys =
     (if length rs \<le> i then Inl (IndexError [''index is out of bounds''])
      else if length ys = length (rs ! i) then Inr (Arr2 (rs[i := ys]))
      else if length ys = 1 then Inr (Arr2 (rs[i := replicate (length (rs ! i)) (hd ys)]))
      else Inl (ValueError [''could not broadcast input array'']))"

text \<open>
  \<^verbatim>\<open>r - data.y\<close> on arrays: elementwise on equal lengths, a single element is
  broadcast, any other pair of lengths is refused.
\<close>

definition np_sub :: "real list \<Rightarrow> real list \<Rightarrow> error + real list" where
  "np_sub xs ys =
     (if length xs = length ys then Inr (map2 (-) xs ys)
      else if length xs = 1 then Inr (map (\<lambda>b. hd xs - b) ys)
      else if length ys = 1 then Inr (map (\<lambda>a. a - hd ys) xs)
      else Inl (ValueError [''operands could not be broadcast together'']))"

section \<open>The regressor step: \<^verbatim>\<open>calcControllerReponse\<close>\<close>

text \<open>
  \<^verbatim>\<open>ctl.lsim\<close> belongs to the control library; it is a parameter \<open>lsim\<close> that returns
  the output, the time grid and the state trajectory, or raises.
\<close>

type_synonym simulator =
  "transfer_function \<Rightarrow> real list \<Rightarrow> real list \<Rightarrow> error + (real list \<times> real list \<times> real list list)"

text \<open>
  The loop \<^verbatim>\<open>for i in range(len(base))\<close>, as a recursion on the basis elements still to
  simulate; \<open>i\<close> is the loop index, \<open>t\<close> the time grid (rebound at every iteration to the
  grid \<^verbatim>\<open>lsim\<close> returns).
\<close>

fun response_loop ::
  "simulator \<Rightarrow> transfer_function list \<Rightarrow> real list \<Rightarrow> nat \<Rightarrow> real list \<Rightarrow> ndarray \<Rightarrow> error + ndarray"
where
  "response_loop lsim [] err i t phi = Inr phi"
| "response_loop lsim (b # bs) err i t phi =
     (case lsim b err t of
        Inl e \<Rightarrow> Inl e
      | Inr (yout, t', x) \<Rightarrow>
          (case set_row phi i yout of
             Inl e \<Rightarrow> Inl e
           | Inr phi' \<Rightarrow> response_loop lsim bs err (Suc i) t' phi'))"

definition calcControllerReponse ::
  "simulator \<Rightarrow> transfer_function list \<Rightarrow> real list \<Rightarrow> iddata \<Rightarrow> error + ndarray"
where
  "calcControllerReponse lsim base err data =
     (let t_start = 0;
          t_end = real (length (data_y data));
          t_step = data_ts data
      in case np_arange t_start t_end t_step of
           Inl e \<Rightarrow> Inl e
         | Inr t \<Rightarrow>
             (case np_zeros (ShapeInt (length base)) (DtypeIntObj (length t)) of
                Inl e \<Rightarrow> Inl e
              | Inr phi \<Rightarrow> response_loop lsim base err 0 t phi))"

section \<open>The least-squares step: \<^verbatim>\<open>calcMinimum\<close>\<close>

text \<open>
  \<^verbatim>\<open>np.mat\<close> turns an array into a matrix: a one-dimensional array becomes a single row.
  The rows of a two-dimensional array have one length.
\<close>

definition ent :: "matrix \<Rightarrow> nat \<Rightarrow> nat \<Rightarrow> real" where
  "ent M i j = rows M ! i ! j"

definition wf_mat :: "matrix \<Rightarrow> bool" where
  "wf_mat M = (length (rows M) = nrows M \<and> list_all (\<lambda>r. length r = ncols M) (rows M))"

fun np_mat :: "ndarray \<Rightarrow> error + matrix" where
  "np_mat (Arr1 xs) = Inr (Mat 1 (length xs) [xs])"
| "np_mat (Arr2 rs) =
     (let n = (case rs of [] \<Rightarrow> 0 | r # _ \<Rightarrow> length r)
      in if list_all (\<lambda>r. length r = n) rs then Inr (Mat (length rs) n rs)
         else Inl (ValueError [''inhomogeneous shape'']))"

text \<open>\<^verbatim>\<open>M.T\<close>, the product \<^verbatim>\<open>A * B\<close> of two matrices, and \<^verbatim>\<open>np.dot\<close> of a
  matrix with a one-dimensional sequence (numpy returns the products as a matrix of one row).\<close>

definition mat_T :: "matrix \<Rightarrow> matrix" where
  "mat_T M = Mat (ncols M) (nrows M)
               (map (\<lambda>j. map (\<lambda>i. ent M i j) [0 ..< nrows M]) [0 ..< ncols M])"

definition mat_mul :: "matrix \<Rightarrow> matrix \<Rightarrow> error + matrix" where
  "mat_mul A B =
     (if ncols A \<noteq> nrows B then Inl (ValueError [''shapes not aligned''])
      else Inr (Mat (nrows A) (ncols B)
             (map (\<lambda>i. map (\<lambda>j. \<Sum>l<ncols A. ent A i l * ent B l j) [0 ..< ncols B])
                  [0 ..< nrows A])))"

definition np_dot :: "matrix \<Rightarrow> real list \<Rightarrow> error + matrix" where
  "np_dot A v =
     (if ncols A \<noteq> length v then Inl (ValueError [''shapes not aligned''])
      else Inr (Mat 1 (nrows A)
             [map (\<lambda>i. \<Sum>t<ncols A. ent A i t * v ! t) [0 ..< nrows A]]))"

text \<open>
  \<^verbatim>\<open>numpy.linalg.inv\<close> belongs to numpy; it is a parameter \<open>linalg_inv\<close> that returns a matrix
  or raises.
\<close>

type_synonym inverter = "matrix \<Rightarrow> error + matrix"

definition calcMinimum :: "inverter \<Rightarrow> ndarray \<Rightarrow> iddata \<Rightarrow> error + matrix" where
  "calcMinimum linalg_inv phi data =
     (case np_mat phi of
        Inl e \<Rightarrow> Inl e
      | Inr P \<Rightarrow>
          (case mat_mul P (mat_T P) of
             Inl e \<Rightarrow> Inl e
           | Inr G \<Rightarrow>
               (case linalg_inv G of
                  Inl e \<Rightarrow> Inl e
                | Inr Gi \<Rightarrow>
                    (case mat_mul Gi P of
                       Inl e \<Rightarrow> Inl e
                     | Inr theta \<Rightarrow> np_dot theta (data_u data)))))"

section \<open>The synthesis step: \<^verbatim>\<open>calcFinalController\<close>\<close>

text \<open>
  Line 8 declares \<^verbatim>\<open>def calcFinalController(theta, base):\<close> and gives it no body: the next
  line of code is the \<^verbatim>\<open>def\<close> of line 10, at the same indentation. Python compiles a
  module as a whole and refuses this one with \<^verbatim>\<open>IndentationError\<close>, so that none of its
  functions can be called as the file stands.

  The module's \<^verbatim>\<open>def\<close> statements, each with its line and whether an indented body
  follows, and the compilation: the first \<^verbatim>\<open>def\<close> without a body is the error.
\<close>

datatype def_stmt = Def (def_name: string) (def_line: nat) (has_body: bool)

definition module_defs :: "def_stmt list" where
  "module_defs =
     [Def ''calcFinalController'' 8 False,
      Def ''calcMinimum'' 10 True,
      Def ''calcControllerReponse'' 19 True,
      Def ''vrftAlgorithm'' 34 True]"

fun compile_defs :: "def_stmt list \<Rightarrow> error + string list" where
  "compile_defs [] = Inr []"
| "compile_defs (Def name line body # ds) =
     (if \<not> body then Inl (IndentationError [''expected an indented block'', name])
      else (case compile_defs ds of Inl e \<Rightarrow> Inl e | Inr names \<Rightarrow> Inr (name # names)))"

text \<open>
  The other functions are modelled from their text, one by one. \<^verbatim>\<open>calcFinalController\<close>
  has no text: whatever its arguments, there is no value, only the error of the compilation.
\<close>

definition calcFinalController :: "matrix \<Rightarrow> transfer_function list \<Rightarrow> error + pyobj" where
  "calcFinalController theta base =
     Inl (IndentationError [''expected an indented block'', ''calcFinalController''])"

section \<open>The orchestrator: \<^verbatim>\<open>vrftAlgorithm\<close>\<close>

text \<open>
  The functions \<^verbatim>\<open>vrftAlgorithm\<close> calls are global names, looked up when the call is
  made. A name is bound to a callable of one of four kinds. \<^verbatim>\<open>reference\<close> is imported from
  \<^verbatim>\<open>vrft.vrft.reference\<close>, a module outside the sources at hand: it is a parameter.
\<close>

type_synonym reference_fn = "pyobj \<Rightarrow> pyobj \<Rightarrow> iddata \<Rightarrow> error + real list"

datatype callable =
    Fn_reference reference_fn
  | Fn_regressor "transfer_function list \<Rightarrow> real list \<Rightarrow> iddata \<Rightarrow> error + ndarray"
  | Fn_estimate "ndarray \<Rightarrow> iddata \<Rightarrow> error + matrix"
  | Fn_synthesis "matrix \<Rightarrow> transfer_function list \<Rightarrow> error + pyobj"

type_synonym namespace = "(string \<times> callable) list"

text \<open>
  The names the module's text binds to functions, in the order of its text: those of
  \<^verbatim>\<open>module_defs\<close> that \<^verbatim>\<open>vrftAlgorithm\<close> could call, and the imported
  \<^verbatim>\<open>reference\<close>.
\<close>

definition module_globals :: "reference_fn \<Rightarrow> inverter \<Rightarrow> simulator \<Rightarrow> namespace" where
  "module_globals reference linalg_inv lsim =
     [(''reference'', Fn_reference reference),
      (''calcFinalController'', Fn_synthesis calcFinalController),
      (''calcMinimum'', Fn_estimate (calcMinimum linalg_inv)),
      (''calcControllerReponse'', Fn_regressor (calcControllerReponse lsim))]"

text \<open>
  A call of a global name: an unbound name raises \<^verbatim>\<open>NameError\<close>. Python looks the
  name up before it evaluates the arguments; where evaluating an argument can raise, as in
  the call of \<^verbatim>\<open>reference\<close>, the lookup and the application are two steps.
\<close>

definition apply_reference :: "callable \<Rightarrow> pyobj \<Rightarrow> pyobj \<Rightarrow> iddata \<Rightarrow> error + real list" where
  "apply_reference c num den data =
     (case c of
        Fn_reference f \<Rightarrow> f num den data
      | _ \<Rightarrow> Inl (TypeError [''reference'']))"

definition call_regressor ::
  "namespace \<Rightarrow> string \<Rightarrow> transfer_function list \<Rightarrow> real list \<Rightarrow> iddata \<Rightarrow> error + ndarray" where
  "call_regressor G name base err data =
     (case map_of G name of
        None \<Rightarrow> Inl (NameError [name])
      | Some (Fn_regressor f) \<Rightarrow> f base err data
      | Some _ \<Rightarrow> Inl (TypeError [name]))"

definition call_estimate ::
  "namespace \<Rightarrow> string \<Rightarrow> ndarray \<Rightarrow> iddata \<Rightarrow> error + matrix" where
  "call_estimate G name phi data =
     (case map_of G name of
        None \<Rightarrow> Inl (NameError [name])
      | Some (Fn_estimate f) \<Rightarrow> f phi data
      | Some _ \<Rightarrow> Inl (TypeError [name]))"

definition call_synthesis ::
  "namespace \<Rightarrow> string \<Rightarrow> matrix \<Rightarrow> transfer_function list \<Rightarrow> error + pyobj" where
  "call_synthesis G name theta base =
     (case map_of G name of
        None \<Rightarrow> Inl (NameError [name])
      | Some (Fn_synthesis f) \<Rightarrow> f theta base
      | Some _ \<Rightarrow> Inl (TypeError [name]))"

text \<open>
  Lines 35 to 46: the \<^verbatim>\<open>isinstance\<close> checks. The loop over \<^verbatim>\<open>base\<close> stops at the
  first element that is not a transfer function. When every check passes, the result is
  the three arguments seen at their types.
\<close>

fun components :: "pyobj list \<Rightarrow> error + transfer_function list" where
  "components [] = Inr []"
| "components (TransferFunction b # bs) =
     (case components bs of Inl e \<Rightarrow> Inl e | Inr cs \<Rightarrow> Inr (b # cs))"
| "components (other # bs) =
     Inl (ValueError [''Some of the components of the controller are not transfer functions.''])"

definition validation ::
  "pyobj \<Rightarrow> pyobj \<Rightarrow> pyobj \<Rightarrow> error + (iddata \<times> transfer_function \<times> transfer_function list)"
where
  "validation data referenceModel base =
     (case data of
        Iddata d \<Rightarrow>
          (case referenceModel of
             TransferFunction m \<Rightarrow>
               (case base of
                  PyList bs \<Rightarrow>
                    (case components bs of Inl e \<Rightarrow> Inl e | Inr cs \<Rightarrow> Inr (d, m, cs))
                | _ \<Rightarrow> Inl (ValueError [''Should pass a list of controllers.'']))
           | _ \<Rightarrow> Inl (ValueError [''The passed reference model is not of type: '',
                                   ''TransferFunction'']))
      | _ \<Rightarrow> Inl (ValueError [''The passed data is not of type: '', ''iddata'']))"

text \<open>The three tests of the checks, as predicates, and the elements of a list.\<close>

fun isinstance_iddata :: "pyobj \<Rightarrow> bool" where
  "isinstance_iddata (Iddata d) = True"
| "isinstance_iddata other = False"

fun isinstance_tf :: "pyobj \<Rightarrow> bool" where
  "isinstance_tf (TransferFunction m) = True"
| "isinstance_tf other = False"

fun type_is_list :: "pyobj \<Rightarrow> bool" where
  "type_is_list (PyList xs) = True"
| "type_is_list other = False"

fun items :: "pyobj \<Rightarrow> pyobj list" where
  "items (PyList xs) = xs"
| "items other = []"

text \<open>
  The attributes \<^verbatim>\<open>referenceModel.num\<close> and \<^verbatim>\<open>referenceModel.den\<close> as Python
  values (lists of lists of arrays), and the method \<^verbatim>\<open>tolist\<close>, which arrays have and
  lists have not.
\<close>

definition num_attr :: "transfer_function \<Rightarrow> pyobj" where
  "num_attr m = PyList (map (\<lambda>row. PyList (map PyArray row)) (tf_num m))"

definition den_attr :: "transfer_function \<Rightarrow> pyobj" where
  "den_attr m = PyList (map (\<lambda>row. PyList (map PyArray row)) (tf_den m))"

fun tolist :: "pyobj \<Rightarrow> error + pyobj" where
  "tolist (PyArray xs) = Inr (PyList (map PyFloat xs))"
| "tolist (PyArray0 x) = Inr (PyFloat x)"
| "tolist other = Inl (AttributeError [''object has no attribute tolist''])"

text \<open>
  Lines 48 to 56: the steps after the checks. Line 48 looks up \<^verbatim>\<open>reference\<close>, then
  evaluates \<^verbatim>\<open>referenceModel.num.tolist()\<close> and \<^verbatim>\<open>referenceModel.den.tolist()\<close>,
  then makes the call.
\<close>

definition pipeline ::
  "namespace \<Rightarrow> iddata \<Rightarrow> transfer_function \<Rightarrow> transfer_function list \<Rightarrow> error + pyobj" where
  "pipeline G data referenceModel base =
     (case map_of G ''reference'' of
        None \<Rightarrow> Inl (NameError [''reference''])
      | Some c \<Rightarrow>
     (case tolist (num_attr referenceModel) of
        Inl x \<Rightarrow> Inl x
      | Inr num \<Rightarrow>
     (case tolist (den_attr referenceModel) of
        Inl x \<Rightarrow> Inl x
      | Inr den \<Rightarrow>
     (case apply_reference c num den data of
        Inl x \<Rightarrow> Inl x
      | Inr r \<Rightarrow>
          (case np_sub r (data_y data) of
             Inl x \<Rightarrow> Inl x
           | Inr e \<Rightarrow>
               (case call_regressor G ''calcControllerResponse'' base e data of
                  Inl x \<Rightarrow> Inl x
                | Inr phi \<Rightarrow>
                    (case call_estimate G ''calcMinimum'' phi data of
                       Inl x \<Rightarrow> Inl x
                     | Inr theta \<Rightarrow>
                         call_synthesis G ''calcFinalController'' theta base)))))))"

definition vrftAlgorithm :: "namespace \<Rightarrow> pyobj \<Rightarrow> pyobj \<Rightarrow> pyobj \<Rightarrow> error + pyobj" where
  "vrftAlgorithm G data referenceModel base =
     (case validation data referenceModel base of
        Inl e \<Rightarrow> Inl e
      | Inr (d, m, cs) \<Rightarrow> pipeline G d m cs)"


section \<open>Least squares: the notions the statements use\<close>

text \<open>
  For a regressor \<open>P\<close> with one row per basis element and one column per sample:
  the combination \<open>P\<^sup>T c\<close> at sample \<open>t\<close>, the squared residual norm \<open>\<parallel>P\<^sup>T \<theta> - u\<parallel>\<^sup>2\<close>,
  linear independence of the rows, and singularity of a square matrix.
\<close>

definition combination :: "matrix \<Rightarrow> real list \<Rightarrow> nat \<Rightarrow> real" where
  "combination P c t = (\<Sum>i<nrows P. ent P i t * c ! i)"

definition residual :: "matrix \<Rightarrow> real list \<Rightarrow> real list \<Rightarrow> real" where
  "residual P v theta = (\<Sum>t<ncols P. (combination P theta t - v ! t)\<^sup>2)"

definition rows_dependent :: "matrix \<Rightarrow> bool" where
  "rows_dependent P =
     (\<exists>c. length c = nrows P \<and> (\<exists>i<nrows P. c ! i \<noteq> 0) \<and> (\<forall>t<ncols P. combination P c t = 0))"

definition singular :: "matrix \<Rightarrow> bool" where
  "singular G =
     (\<exists>x. length x = ncols G \<and> (\<exists>j<ncols G. x ! j \<noteq> 0) \<and>
          (\<forall>i<nrows G. (\<Sum>j<ncols G. ent G i j * x ! j) = 0))"

definition identity :: "nat \<Rightarrow> matrix" where
  "identity k = Mat k k (map (\<lambda>i. map (\<lambda>j. if i = j then 1 else 0) [0 ..< k]) [0 ..< k])"

text \<open>
  What \<^verbatim>\<open>numpy.linalg.inv\<close> does at a square matrix \<open>G\<close> that is not singular, in exact
  arithmetic: it returns the inverse. Nothing is said of a singular \<open>G\<close>: there the
  library raises \<^verbatim>\<open>LinAlgError\<close> when its factorisation, done in doubles, meets a pivot
  that is exactly zero, and returns a matrix when it does not.
\<close>

definition inv_contract :: "inverter \<Rightarrow> matrix \<Rightarrow> bool" where
  "inv_contract linalg_inv G =
     (singular G \<or>
      (\<exists>B. linalg_inv G = Inr B \<and> wf_mat B \<and> nrows B = nrows G \<and> ncols B = ncols G \<and>
           mat_mul G B = Inr (identity (nrows G))))"

section \<open>The virtual reference\<close>

text \<open>
  Modelled from the spec: \<^verbatim>\<open>virtual_reference\<close> (the specification's
  \<^verbatim>\<open>computeVirtualReference\<close>, section 4.2) is called by the tests in
  \<^verbatim>\<open>src/test/test_reference.py\<close> and has no definition in the sources at hand.
  The definitions of this section follow the specification's words.

  A scalar, an array of dimension zero, and a sequence of numbers describe coefficients,
  highest power first.
\<close>

fun number :: "pyobj \<Rightarrow> real option" where
  "number (PyFloat x) = Some x"
| "number (PyInt n) = Some (of_int n)"
| "number other = None"

fun numbers :: "pyobj list \<Rightarrow> real list option" where
  "numbers [] = Some []"
| "numbers (x # xs) =
     (case number x of
        None \<Rightarrow> None
      | Some a \<Rightarrow> (case numbers xs of None \<Rightarrow> None | Some as \<Rightarrow> Some (a # as)))"

fun coefficients :: "pyobj \<Rightarrow> real list option" where
  "coefficients (PyFloat x) = Some [x]"
| "coefficients (PyInt n) = Some [of_int n]"
| "coefficients (PyArray0 x) = Some [x]"
| "coefficients (PyArray xs) = Some xs"
| "coefficients (PyList xs) = numbers xs"
| "coefficients other = None"

text \<open>
  Modelled from the spec: the degree of a coefficient sequence does not count leading zero
  coefficients.
\<close>

definition degree :: "real list \<Rightarrow> nat" where
  "degree cs = length (dropWhile (\<lambda>c. c = 0) cs) - 1"

text \<open>
  Modelled from the spec: a system description is a pair of non-empty coefficient
  sequences, the denominator's leading coefficient is not zero, and the system is proper.
  Its order is \<^verbatim>\<open>len(denominator) - 1\<close> (section 3).
\<close>

definition valid_system :: "real list \<Rightarrow> real list \<Rightarrow> bool" where
  "valid_system num den =
     (num \<noteq> [] \<and> den \<noteq> [] \<and> hd den \<noteq> 0 \<and> degree num \<le> degree den)"

definition system_order :: "real list \<Rightarrow> nat" where
  "system_order den = length den - 1"

text \<open>
  Modelled from the spec: degree alignment (sections 4.2 and 9) pads numerator and
  denominator with zeros at the low-order end to one length, so that both sequences have
  \<open>order + 1\<close> coefficients. The order the initial conditions are checked against is the
  order of the aligned pair, \<^verbatim>\<open>len(denominator) - 1\<close> after alignment.
\<close>

definition align :: "real list \<Rightarrow> real list \<Rightarrow> real list \<times> real list" where
  "align num den =
     (let k = max (length num) (length den)
      in (num @ replicate (k - length num) 0, den @ replicate (k - length den) 0))"

definition aligned_order :: "real list \<Rightarrow> real list \<Rightarrow> nat" where
  "aligned_order num den = system_order (snd (align num den))"

text \<open>
  Modelled from the spec: the linear-system simulator is an external collaborator
  (section 6): from numerator, denominator, sampling period, input sequence and initial
  state it returns the output sequence and the final state.
\<close>

type_synonym lti_simulator =
  "real list \<Rightarrow> real list \<Rightarrow> real \<Rightarrow> real list \<Rightarrow> real list \<Rightarrow> real list \<times> real list"

text \<open>
  Modelled from the spec: \<^verbatim>\<open>computeVirtualReference(data, numerator, denominator)\<close>.
  The checks of section 4.2 in turn (system description, order 0, data, lengths, initial
  conditions), then the simulation of the inverted system, numerator and denominator
  swapped after alignment, driven by \<^verbatim>\<open>y\<close>.
\<close>

definition virtual_reference ::
  "lti_simulator \<Rightarrow> pyobj \<Rightarrow> pyobj \<Rightarrow> pyobj \<Rightarrow> error + (real list \<times> real list)" where
  "virtual_reference simulate data num den =
     (case coefficients num of
        None \<Rightarrow> Inl (ValueError [''Error in check system''])
      | Some n \<Rightarrow>
     (case coefficients den of
        None \<Rightarrow> Inl (ValueError [''Error in check system''])
      | Some d \<Rightarrow>
          if \<not> valid_system n d then Inl (ValueError [''Error in check system''])
          else if system_order d = 0
            then Inl (ValueError [''The reference model can not be a constant.''])
          else
            (case data of
               Iddata dat \<Rightarrow>
                 if length (data_y dat) \<noteq> length (data_u dat)
                   then Inl (ValueError [''Input and output size do not match.''])
                 else if length (data_y0 dat) \<noteq> aligned_order n d
                   then Inl (ValueError [''Wrong initial condition size.''])
                 else
                   (case align n d of
                      (n', d') \<Rightarrow>
                        Inr (simulate d' n' (data_ts dat) (data_y dat) (data_y0 dat)))
             | _ \<Rightarrow> Inl (ValueError [''The passed data is not of type: '', ''iddata'']))))"

text \<open>
  Modelled from the spec: a simulator of the kind section 6 describes, the difference
  equation of a transfer function in exact arithmetic. With the numerator \<open>b\<close>, padded
  with leading zeros to the length of the denominator \<open>a\<close>, the output at sample \<open>k\<close> is
  \<open>(\<Sum>j. b\<^sub>j x\<^sub>k\<^sub>-\<^sub>j - \<Sum>j\<ge>1. a\<^sub>j y\<^sub>k\<^sub>-\<^sub>j) / a\<^sub>0\<close>. The initial state holds the inputs before the first
  sample, the latest first; the outputs before the first sample are zero. The final state
  holds the latest inputs. A denominator without a leading coefficient other than zero
  describes no difference equation, and there is no output.
\<close>

definition dot :: "real list \<Rightarrow> real list \<Rightarrow> real" where
  "dot xs ys = sum_list (map2 (*) xs ys)"



section \<open>Concrete inputs\<close>

text \<open>
  The experiment, the reference model and the basis of \<^verbatim>\<open>src/examples/1_example.py\<close>,
  with a short record of four samples, and the systems of the tests.
\<close>

definition example_data :: iddata where
  "example_data = \<lparr>data_y = [0, 1/2, 1, 1], data_u = [1, 1, 1, 1], data_ts = 1/100, data_y0 = [0]\<rparr>"

definition refModel :: transfer_function where
  "refModel = \<lparr>tf_num = [[[6/10]]], tf_den = [[[1, -4/10]]], tf_dt = 1/100\<rparr>"

definition example_base :: "transfer_function list" where
  "example_base = [\<lparr>tf_num = [[[1]]], tf_den = [[[1, -1]]], tf_dt = 1/100\<rparr>,
                   \<lparr>tf_num = [[[1, 0]]], tf_den = [[[1, -1]]], tf_dt = 1/100\<rparr>]"


text \<open>An experiment of two samples, and the experiment of the first-order test: the step
  response of \<^verbatim>\<open>num=[0.1]\<close>, \<^verbatim>\<open>den=[1, -0.9]\<close> over four samples.\<close>

definition two_samples :: iddata where
  "two_samples = \<lparr>data_y = [0, 0], data_u = [1, 1], data_ts = 1/100, data_y0 = [0]\<rparr>"


text \<open>Stand-ins for the collaborators: each returns without raising.\<close>

definition stub_reference :: reference_fn where
  "stub_reference num den data = Inr (data_u data)"

definition stub_lsim :: simulator where
  "stub_lsim sys inp t = Inr (inp, t, [])"

definition stub_simulate :: lti_simulator where
  "stub_simulate num den dt inp x0 = (inp, x0)"

text \<open>The inverse of a matrix of one or two rows, by the adjugate.\<close>

fun small_inv :: inverter where
  "small_inv (Mat k n [[a]]) =
     (if a = 0 then Inl (LinAlgError [''Singular matrix'']) else Inr (Mat 1 1 [[1 / a]]))"
| "small_inv (Mat k n [[a, b], [c, d]]) =
     (if a * d - b * c = 0 then Inl (LinAlgError [''Singular matrix''])
      else Inr (Mat 2 2 [[d / (a * d - b * c), - b / (a * d - b * c)],
                         [- c / (a * d - b * c), a / (a * d - b * c)]]))"
| "small_inv M = Inl (LinAlgError [''Singular matrix''])"

text \<open>
  An inverter that is \<open>small_inv\<close> except at the cross-product of the rows
  \<^verbatim>\<open>[1, 7]\<close> and \<^verbatim>\<open>[3, 21]\<close>. That matrix is singular, and the library returns at
  it: the factorisation with partial pivoting, done in doubles, takes the multiplier
  \<open>50 \<cdot> (1/150)\<close>, which rounds above \<open>1/3\<close>, and is left with the pivot \<open>-2\<^sup>-\<^sup>4\<^sup>5\<close>
  instead of zero. The matrix below is the one it returns.
\<close>

definition inv_in_doubles :: inverter where
  "inv_in_doubles G =
     (if G = Mat 2 2 [[50, 150], [150, 450]]
      then Inr (Mat 2 2 [[105553116266496, - 35184372088832],
                         [- 35184372088832, 3002399751580331 / 256]])
      else small_inv G)"

section \<open>The orchestrator: validation\<close>

lemma components_map: "components (map TransferFunction bs) = Inr bs"
  by (induction bs) simp_all

lemma components_fail:
  "\<not> list_all isinstance_tf bs \<Longrightarrow>
   components bs =
     Inl (ValueError [''Some of the components of the controller are not transfer functions.''])"
  by (induction bs rule: components.induct) (auto split: sum.splits)

lemma components_pass:
  "list_all isinstance_tf bs \<Longrightarrow> \<exists>cs. components bs = Inr cs"
  by (induction bs rule: components.induct) (auto split: sum.splits)

lemma validation_fail:
  assumes "\<not> isinstance_iddata data \<or> \<not> isinstance_tf referenceModel \<or> \<not> type_is_list base \<or>
           \<not> list_all isinstance_tf (items base)"
  shows "\<exists>args. validation data referenceModel base = Inl (ValueError args)"
proof (cases data)
  case (Iddata d)
  show ?thesis
  proof (cases referenceModel)
    case (TransferFunction m)
    show ?thesis
    proof (cases base)
      case (PyList bs)
      with assms Iddata TransferFunction have "\<not> list_all isinstance_tf bs" by simp
      from components_fail [OF this] show ?thesis
        by (simp add: validation_def Iddata TransferFunction PyList)
    qed (simp_all add: validation_def Iddata TransferFunction)
  qed (simp_all add: validation_def Iddata)
qed (simp_all add: validation_def)

lemma validation_pass:
  assumes "isinstance_iddata data" "isinstance_tf referenceModel" "type_is_list base"
          "list_all isinstance_tf (items base)"
  shows "\<exists>d m cs. validation data referenceModel base = Inr (d, m, cs)"
proof -
  from assms(1) obtain d where d: "data = Iddata d" by (cases data) simp_all
  from assms(2) obtain m where m: "referenceModel = TransferFunction m"
    by (cases referenceModel) simp_all
  from assms(3) obtain bs where bs: "base = PyList bs" by (cases base) simp_all
  from assms(4) bs obtain cs where "components bs = Inr cs"
    using components_pass by auto
  then show ?thesis by (simp add: validation_def d m bs)
qed

text \<open>
  After the checks, line 48 ends the call: with \<^verbatim>\<open>reference\<close> unbound in
  \<^verbatim>\<open>NameError\<close>, otherwise in the \<^verbatim>\<open>AttributeError\<close> of
  \<^verbatim>\<open>referenceModel.num.tolist()\<close>, the attribute being a list.
\<close>

lemma tolist_num_attr: "tolist (num_attr m) = Inl (AttributeError [''object has no attribute tolist''])"
  by (simp add: num_attr_def)

lemma pipeline_line_48:
  "pipeline G d m cs =
     (case map_of G ''reference'' of
        None \<Rightarrow> Inl (NameError [''reference''])
      | Some c \<Rightarrow> Inl (AttributeError [''object has no attribute tolist'']))"
  by (simp add: pipeline_def tolist_num_attr split: option.splits)

lemma pipeline_module:
  "pipeline (module_globals reference linalg_inv lsim) d m cs
     = Inl (AttributeError [''object has no attribute tolist''])"
  by (simp add: pipeline_line_48 module_globals_def)

lemma regressor_raises: "\<exists>x. calcControllerReponse lsim base err d = Inl x"
  by (simp add: calcControllerReponse_def np_arange_def Let_def)

text \<open>
  C6, as the code has it. \<^verbatim>\<open>vrftAlgorithm\<close> raises \<^verbatim>\<open>ValueError\<close> whatever the
  functions it would call do (so before any of them is called) exactly when \<^verbatim>\<open>data\<close> is
  not an \<^verbatim>\<open>iddata\<close>, \<^verbatim>\<open>referenceModel\<close> is not a transfer function, \<^verbatim>\<open>base\<close>
  is not a list, or some element of \<^verbatim>\<open>base\<close> is not a transfer function. An empty list
  has no such element: it passes the checks.
\<close>

theorem validation_raises_before_computation:
  "(\<exists>args. \<forall>G. vrftAlgorithm G data referenceModel base = Inl (ValueError args)) \<longleftrightarrow>
   (\<not> isinstance_iddata data \<or> \<not> isinstance_tf referenceModel \<or> \<not> type_is_list base \<or>
    \<not> list_all isinstance_tf (items base))"
proof
  assume "\<exists>args. \<forall>G. vrftAlgorithm G data referenceModel base = Inl (ValueError args)"
  then obtain args where "vrftAlgorithm [] data referenceModel base = Inl (ValueError args)"
    by blast
  then have "\<not> (\<exists>d m cs. validation data referenceModel base = Inr (d, m, cs))"
    by (auto simp: vrftAlgorithm_def pipeline_def)
  with validation_pass show "\<not> isinstance_iddata data \<or> \<not> isinstance_tf referenceModel \<or>
      \<not> type_is_list base \<or> \<not> list_all isinstance_tf (items base)"
    by blast
next
  assume "\<not> isinstance_iddata data \<or> \<not> isinstance_tf referenceModel \<or> \<not> type_is_list base \<or>
    \<not> list_all isinstance_tf (items base)"
  from validation_fail [OF this] obtain args
    where "validation data referenceModel base = Inl (ValueError args)" by blast
  then have "\<forall>G. vrftAlgorithm G data referenceModel base = Inl (ValueError args)"
    by (simp add: vrftAlgorithm_def)
  then show "\<exists>args. \<forall>G. vrftAlgorithm G data referenceModel base = Inl (ValueError args)" ..
qed

text \<open>A basis whose second element is a number is refused.\<close>

theorem validation_raises_before_computation_witness:
  "\<exists>args. \<forall>G. vrftAlgorithm G (Iddata example_data) (TransferFunction refModel)
      (PyList [TransferFunction refModel, PyFloat 1]) = Inl (ValueError args)"
  using validation_raises_before_computation
    [of "Iddata example_data" "TransferFunction refModel"
        "PyList [TransferFunction refModel, PyFloat 1]"]
  by simp

text \<open>
  C6 as stated fails for the empty basis set: with an experiment and a reference model of
  the right types, the empty list passes the checks, and the error of the call is the
  \<^verbatim>\<open>AttributeError\<close> of line 48, not a \<^verbatim>\<open>ValueError\<close>.
\<close>

theorem empty_basis_passes_validation:
  "validation (Iddata example_data) (TransferFunction refModel) (PyList [])
     = Inr (example_data, refModel, []) \<and>
   vrftAlgorithm (module_globals stub_reference small_inv stub_lsim)
     (Iddata example_data) (TransferFunction refModel) (PyList [])
     = Inl (AttributeError [''object has no attribute tolist''])"
  by (simp add: validation_def vrftAlgorithm_def pipeline_module)

text \<open>
  C10. The checks look at the types only: an experiment, a reference model and a list of
  transfer functions pass them whatever their fields hold, so also when a sampling period
  differs from \<^verbatim>\<open>data.ts\<close> or the coefficient sequences do not fit the data.
\<close>

theorem validation_types_only:
  "validation (Iddata d) (TransferFunction m) (PyList (map TransferFunction bs)) = Inr (d, m, bs)"
  by (simp add: validation_def components_map)

section \<open>The orchestrator: the steps after the checks\<close>




text \<open>
  C9. The module does not compile, \<^verbatim>\<open>calcFinalController\<close> having no body, and that
  function yields no value. In the module's namespace the name
  \<^verbatim>\<open>calcControllerResponse\<close> is unbound, the regressor step being defined as
  \<^verbatim>\<open>calcControllerReponse\<close>; that function raises at its call of \<^verbatim>\<open>np.zeros\<close> on
  every input. So \<^verbatim>\<open>vrftAlgorithm\<close> returns nothing on any input: when the checks pass,
  the call ends at line 48, before the regressor, estimation and synthesis steps.
\<close>

theorem vrftAlgorithm_never_returns:
  "map_of (module_globals reference linalg_inv lsim) ''calcControllerResponse'' = None \<and>
   map_of (module_globals reference linalg_inv lsim) ''calcControllerReponse''
     = Some (Fn_regressor (calcControllerReponse lsim)) \<and>
   (\<exists>x. calcControllerReponse lsim base err d = Inl x) \<and>
   (\<exists>x. calcFinalController theta base = Inl x) \<and>
   (\<exists>x. vrftAlgorithm (module_globals reference linalg_inv lsim) data referenceModel basis
          = Inl x) \<and>
   (validation data referenceModel basis = Inr (d', m, cs) \<longrightarrow>
      vrftAlgorithm (module_globals reference linalg_inv lsim) data referenceModel basis
        = Inl (AttributeError [''object has no attribute tolist''])) \<and>
   compile_defs module_defs
     = Inl (IndentationError [''expected an indented block'', ''calcFinalController''])"
proof -
  have unbound: "map_of (module_globals reference linalg_inv lsim) ''calcControllerResponse'' = None"
    by (simp add: module_globals_def)
  have bound: "map_of (module_globals reference linalg_inv lsim) ''calcControllerReponse''
      = Some (Fn_regressor (calcControllerReponse lsim))"
    by (simp add: module_globals_def)
  have never: "\<exists>x. vrftAlgorithm (module_globals reference linalg_inv lsim) data referenceModel basis
      = Inl x"
    by (auto simp: vrftAlgorithm_def pipeline_module split: sum.splits prod.splits)
  have stage: "validation data referenceModel basis = Inr (d', m, cs) \<longrightarrow>
      vrftAlgorithm (module_globals reference linalg_inv lsim) data referenceModel basis
        = Inl (AttributeError [''object has no attribute tolist''])"
    by (simp add: vrftAlgorithm_def pipeline_module)
  have compile: "compile_defs module_defs
     = Inl (IndentationError [''expected an indented block'', ''calcFinalController''])"
    by (simp add: module_defs_def)
  show ?thesis
    using unbound bound regressor_raises never stage compile
    by (simp add: calcFinalController_def)
qed

text \<open>On the example the checks pass and the call ends at line 48.\<close>

theorem vrftAlgorithm_never_returns_witness:
  "vrftAlgorithm (module_globals stub_reference small_inv stub_lsim)
     (Iddata example_data) (TransferFunction refModel)
     (PyList (map TransferFunction example_base))
   = Inl (AttributeError [''object has no attribute tolist''])"
  using vrftAlgorithm_never_returns
    [of stub_reference small_inv stub_lsim "[]" "[]" example_data "Mat 0 0 []"
        "Iddata example_data" "TransferFunction refModel"
        "PyList (map TransferFunction example_base)" example_data refModel example_base]
  by (simp add: validation_def components_map)

section \<open>The regressor step\<close>

text \<open>
  C3. On the basis of the example, an error sequence of four samples and the experiment of
  the example, \<^verbatim>\<open>calcControllerReponse\<close> raises \<^verbatim>\<open>TypeError\<close> at
  \<^verbatim>\<open>np.zeros(len(base), len(t))\<close> and returns no matrix. The time grid it builds first,
  from 0 to \<^verbatim>\<open>len(data.y)\<close> in steps of \<^verbatim>\<open>data.ts\<close>, has 400 points for the 4 samples.
\<close>

theorem regressor_allocation_fails:
  "calcControllerReponse stub_lsim example_base [1, 1/2, 0, 0] example_data
     = Inl (TypeError [''Cannot interpret the integer as a data type'']) \<and>
   map_sum id length (np_arange 0 (real (length (data_y example_data))) (data_ts example_data))
     = Inr 400"
  by (simp add: calcControllerReponse_def np_arange_def Let_def example_data_def)

section \<open>The least-squares step\<close>

lemma gram_apply:
  fixes p :: "nat \<Rightarrow> nat \<Rightarrow> real"
  shows "(\<Sum>j<k. (\<Sum>t<N. p i t * p j t) * x j) = (\<Sum>t<N. p i t * (\<Sum>j<k. p j t * x j))"
proof -
  have "(\<Sum>j<k. (\<Sum>t<N. p i t * p j t) * x j) = (\<Sum>j<k. \<Sum>t<N. p i t * (p j t * x j))"
    by (simp add: sum_distrib_right mult.assoc)
  also have "\<dots> = (\<Sum>t<N. \<Sum>j<k. p i t * (p j t * x j))"
    by (rule sum.swap)
  also have "\<dots> = (\<Sum>t<N. p i t * (\<Sum>j<k. p j t * x j))"
    by (simp add: sum_distrib_left)
  finally show ?thesis .
qed

lemma ent_mat_T: "i < ncols M \<Longrightarrow> j < nrows M \<Longrightarrow> ent (mat_T M) i j = ent M j i"
  by (simp add: mat_T_def ent_def)

lemma mat_mul_Inr:
  assumes "mat_mul A B = Inr C"
  shows "ncols A = nrows B" and "nrows C = nrows A" and "ncols C = ncols B"
    and "wf_mat C"
    and "i < nrows A \<Longrightarrow> j < ncols B \<Longrightarrow> ent C i j = (\<Sum>l<ncols A. ent A i l * ent B l j)"
  using assms
  by (auto simp: mat_mul_def wf_mat_def ent_def list_all_iff split: if_splits)

lemma mat_mul_conformable:
  "ncols A = nrows B \<Longrightarrow> \<exists>C. mat_mul A B = Inr C"
  by (simp add: mat_mul_def)

lemma ent_identity: "i < k \<Longrightarrow> j < k \<Longrightarrow> ent (identity k) i j = (if i = j then 1 else 0)"
  by (simp add: identity_def ent_def)

lemma cross_product:
  "\<exists>G. mat_mul P (mat_T P) = Inr G \<and> nrows G = nrows P \<and> ncols G = nrows P \<and>
       (\<forall>i<nrows P. \<forall>j<nrows P. ent G i j = (\<Sum>t<ncols P. ent P i t * ent P j t))"
proof -
  have "ncols P = nrows (mat_T P)" by (simp add: mat_T_def)
  then obtain G where G: "mat_mul P (mat_T P) = Inr G"
    using mat_mul_conformable by blast
  have "ent G i j = (\<Sum>t<ncols P. ent P i t * ent P j t)" if "i < nrows P" "j < nrows P" for i j
  proof -
    have "ent G i j = (\<Sum>t<ncols P. ent P i t * ent (mat_T P) t j)"
      using mat_mul_Inr(5) [OF G, of i j] that by (simp add: mat_T_def)
    also have "\<dots> = (\<Sum>t<ncols P. ent P i t * ent P j t)"
      using that by (intro sum.cong) (simp_all add: ent_mat_T)
    finally show ?thesis .
  qed
  moreover have "nrows G = nrows P" "ncols G = nrows P"
    using mat_mul_Inr(2,3) [OF G] by (simp_all add: mat_T_def)
  ultimately show ?thesis using G by blast
qed

text \<open>Dependent rows make the cross-product singular.\<close>

lemma dependent_singular:
  assumes dep: "rows_dependent P"
    and G: "mat_mul P (mat_T P) = Inr G"
  shows "singular G"
proof -
  obtain G' where G': "mat_mul P (mat_T P) = Inr G'" "nrows G' = nrows P" "ncols G' = nrows P"
    and ent': "\<And>i j. i < nrows P \<Longrightarrow> j < nrows P \<Longrightarrow> ent G' i j = (\<Sum>t<ncols P. ent P i t * ent P j t)"
    using cross_product [of P] by blast
  from G G' have [simp]: "G' = G" by simp
  from dep obtain c where c: "length c = nrows P" "\<exists>i<nrows P. c ! i \<noteq> 0"
      "\<forall>t<ncols P. combination P c t = 0"
    by (auto simp: rows_dependent_def)
  have "(\<Sum>j<ncols G. ent G i j * c ! j) = 0" if "i < nrows G" for i
  proof -
    have "(\<Sum>j<nrows P. ent G i j * c ! j) = (\<Sum>j<nrows P. (\<Sum>t<ncols P. ent P i t * ent P j t) * c ! j)"
      using that G'(2) ent' by (intro sum.cong) simp_all
    also have "\<dots> = (\<Sum>t<ncols P. ent P i t * (\<Sum>j<nrows P. ent P j t * c ! j))"
      by (rule gram_apply)
    also have "\<dots> = 0"
      using c(3) by (simp add: combination_def)
    finally show ?thesis using G'(3) by simp
  qed
  with c G' show ?thesis
    unfolding singular_def by (intro exI [of _ c]) simp
qed

lemma quadratic_form:
  fixes p :: "nat \<Rightarrow> nat \<Rightarrow> real"
  shows "(\<Sum>i<k. x i * (\<Sum>j<k. (\<Sum>t<N. p i t * p j t) * x j)) = (\<Sum>t<N. (\<Sum>j<k. p j t * x j)\<^sup>2)"
proof -
  have "(\<Sum>i<k. x i * (\<Sum>j<k. (\<Sum>t<N. p i t * p j t) * x j))
        = (\<Sum>i<k. x i * (\<Sum>t<N. p i t * (\<Sum>j<k. p j t * x j)))"
    by (simp add: gram_apply)
  also have "\<dots> = (\<Sum>i<k. \<Sum>t<N. (p i t * x i) * (\<Sum>j<k. p j t * x j))"
    by (simp add: sum_distrib_left mult_ac)
  also have "\<dots> = (\<Sum>t<N. \<Sum>i<k. (p i t * x i) * (\<Sum>j<k. p j t * x j))"
    by (rule sum.swap)
  also have "\<dots> = (\<Sum>t<N. (\<Sum>i<k. p i t * x i) * (\<Sum>j<k. p j t * x j))"
    by (simp add: sum_distrib_right)
  finally show ?thesis by (simp add: power2_eq_square)
qed

lemma least_squares_core:
  fixes p :: "nat \<Rightarrow> nat \<Rightarrow> real"
  assumes normal: "\<And>i. i < k \<Longrightarrow>
      (\<Sum>j<k. (\<Sum>t<N. p i t * p j t) * th j) = (\<Sum>t<N. p i t * u t)"
  shows "(\<Sum>t<N. ((\<Sum>i<k. p i t * th' i) - u t)\<^sup>2)
       = (\<Sum>t<N. ((\<Sum>i<k. p i t * th i) - u t)\<^sup>2) + (\<Sum>t<N. (\<Sum>i<k. p i t * (th' i - th i))\<^sup>2)"
proof -
  let ?a = "\<lambda>t. (\<Sum>i<k. p i t * th i) - u t"
  let ?d = "\<lambda>t. (\<Sum>i<k. p i t * (th' i - th i))"
  have split: "(\<Sum>i<k. p i t * th' i) - u t = ?a t + ?d t" for t
    by (simp add: right_diff_distrib sum_subtractf)
  have ortho_i: "(\<Sum>t<N. p i t * ?a t) = 0" if "i < k" for i
  proof -
    have "(\<Sum>t<N. p i t * ?a t) = (\<Sum>t<N. p i t * (\<Sum>j<k. p j t * th j)) - (\<Sum>t<N. p i t * u t)"
      by (simp add: right_diff_distrib sum_subtractf)
    also have "\<dots> = 0"
      using normal [OF that] by (simp add: gram_apply)
    finally show ?thesis .
  qed
  have "(\<Sum>t<N. ?a t * ?d t) = (\<Sum>t<N. \<Sum>i<k. (th' i - th i) * (p i t * ?a t))"
    by (simp add: sum_distrib_left mult_ac)
  also have "\<dots> = (\<Sum>i<k. \<Sum>t<N. (th' i - th i) * (p i t * ?a t))"
    by (rule sum.swap)
  also have "\<dots> = (\<Sum>i<k. (th' i - th i) * (\<Sum>t<N. p i t * ?a t))"
    by (simp add: sum_distrib_left)
  also have "\<dots> = 0"
    using ortho_i by simp
  finally have ortho: "(\<Sum>t<N. ?a t * ?d t) = 0" .
  have "(\<Sum>t<N. ((\<Sum>i<k. p i t * th' i) - u t)\<^sup>2) = (\<Sum>t<N. (?a t + ?d t)\<^sup>2)"
    by (simp only: split)
  also have "\<dots> = (\<Sum>t<N. (?a t)\<^sup>2 + (?d t)\<^sup>2 + 2 * (?a t * ?d t))"
    by (rule sum.cong) (simp_all add: power2_sum)
  also have "\<dots> = (\<Sum>t<N. (?a t)\<^sup>2) + (\<Sum>t<N. (?d t)\<^sup>2) + 2 * (\<Sum>t<N. ?a t * ?d t)"
    by (simp add: sum.distrib sum_distrib_left)
  finally show ?thesis using ortho by simp
qed

text \<open>Independent rows make the cross-product regular.\<close>

lemma independent_regular:
  assumes indep: "\<not> rows_dependent P"
    and G: "mat_mul P (mat_T P) = Inr G"
  shows "\<not> singular G"
proof
  assume "singular G"
  obtain G' where G': "mat_mul P (mat_T P) = Inr G'" "nrows G' = nrows P" "ncols G' = nrows P"
    and ent': "\<And>i j. i < nrows P \<Longrightarrow> j < nrows P \<Longrightarrow> ent G' i j = (\<Sum>t<ncols P. ent P i t * ent P j t)"
    using cross_product [of P] by blast
  from G G' have [simp]: "G' = G" by simp
  from \<open>singular G\<close> G' obtain x where x: "length x = nrows P" "\<exists>j<nrows P. x ! j \<noteq> 0"
      and zero: "\<And>i. i < nrows P \<Longrightarrow> (\<Sum>j<nrows P. ent G i j * x ! j) = 0"
    by (auto simp: singular_def)
  have "(\<Sum>t<ncols P. (\<Sum>j<nrows P. ent P j t * x ! j)\<^sup>2)
        = (\<Sum>i<nrows P. x ! i * (\<Sum>j<nrows P. (\<Sum>t<ncols P. ent P i t * ent P j t) * x ! j))"
    by (rule quadratic_form [symmetric])
  also have "\<dots> = (\<Sum>i<nrows P. x ! i * (\<Sum>j<nrows P. ent G i j * x ! j))"
    using ent' by (intro sum.cong) simp_all
  also have "\<dots> = 0"
    using zero by simp
  finally have "(\<Sum>t<ncols P. (combination P x t)\<^sup>2) = 0"
    by (simp add: combination_def)
  then have "\<forall>t<ncols P. combination P x t = 0"
    by (simp add: sum_nonneg_eq_0_iff)
  with x have "rows_dependent P"
    unfolding rows_dependent_def by blast
  with indep show False ..
qed

text \<open>The value \<^verbatim>\<open>calcMinimum\<close> returns when the inverse is \<open>B\<close>.\<close>

lemma calcMinimum_value:
  assumes mat: "np_mat phi = Inr P"
    and G: "mat_mul P (mat_T P) = Inr G"
    and inv: "linalg_inv G = Inr B" and B: "ncols B = nrows P"
    and len: "length (data_u data) = ncols P"
  shows "calcMinimum linalg_inv phi data =
      Inr (Mat 1 (nrows B)
        [map (\<lambda>i. \<Sum>t<ncols P. (\<Sum>l<nrows P. ent B i l * ent P l t) * data_u data ! t)
           [0 ..< nrows B]])"
proof -
  from B obtain Th where Th: "mat_mul B P = Inr Th"
    using mat_mul_conformable by blast
  have dims: "nrows Th = nrows B" "ncols Th = ncols P"
    using mat_mul_Inr(2,3) [OF Th] by simp_all
  have ent: "ent Th i t = (\<Sum>l<nrows P. ent B i l * ent P l t)" if "i < nrows B" "t < ncols P" for i t
    using mat_mul_Inr(5) [OF Th that] B by simp
  have "np_dot Th (data_u data) =
      Inr (Mat 1 (nrows B) [map (\<lambda>i. \<Sum>t<ncols P. ent Th i t * data_u data ! t) [0 ..< nrows B]])"
    using len dims by (simp add: np_dot_def)
  also have "map (\<lambda>i. \<Sum>t<ncols P. ent Th i t * data_u data ! t) [0 ..< nrows B]
      = map (\<lambda>i. \<Sum>t<ncols P. (\<Sum>l<nrows P. ent B i l * ent P l t) * data_u data ! t) [0 ..< nrows B]"
    using ent by (intro map_cong refl sum.cong) simp_all
  finally show ?thesis
    using mat G inv Th by (simp add: calcMinimum_def)
qed

text \<open>With a right inverse of the cross-product, the value solves the normal equations.\<close>

lemma normal_equations:
  fixes p :: "nat \<Rightarrow> nat \<Rightarrow> real"
  assumes inverse: "\<And>i l. i < k \<Longrightarrow> l < k \<Longrightarrow>
      (\<Sum>j<k. (\<Sum>t<N. p i t * p j t) * b j l) = (if i = l then 1 else 0)"
    and i: "i < k"
  shows "(\<Sum>j<k. (\<Sum>t<N. p i t * p j t) * (\<Sum>t<N. (\<Sum>l<k. b j l * p l t) * u t))
         = (\<Sum>t<N. p i t * u t)"
proof -
  let ?g = "\<lambda>i j. \<Sum>t<N. p i t * p j t"
  let ?r = "\<lambda>l. \<Sum>t<N. p l t * u t"
  have th: "(\<Sum>t<N. (\<Sum>l<k. b j l * p l t) * u t) = (\<Sum>l<k. b j l * ?r l)" for j
  proof -
    have "(\<Sum>t<N. (\<Sum>l<k. b j l * p l t) * u t) = (\<Sum>t<N. \<Sum>l<k. b j l * (p l t * u t))"
      by (simp add: sum_distrib_right mult.assoc)
    also have "\<dots> = (\<Sum>l<k. \<Sum>t<N. b j l * (p l t * u t))"
      by (rule sum.swap)
    also have "\<dots> = (\<Sum>l<k. b j l * ?r l)"
      by (simp add: sum_distrib_left)
    finally show ?thesis .
  qed
  have "(\<Sum>j<k. ?g i j * (\<Sum>t<N. (\<Sum>l<k. b j l * p l t) * u t))
        = (\<Sum>j<k. \<Sum>l<k. (?g i j * b j l) * ?r l)"
    by (simp only: th sum_distrib_left mult.assoc)
  also have "\<dots> = (\<Sum>l<k. \<Sum>j<k. (?g i j * b j l) * ?r l)"
    by (rule sum.swap)
  also have "\<dots> = (\<Sum>l<k. (\<Sum>j<k. ?g i j * b j l) * ?r l)"
    by (simp only: sum_distrib_right)
  also have "\<dots> = (\<Sum>l<k. (if i = l then 1 else 0) * ?r l)"
    using inverse [OF i] by (intro sum.cong) simp_all
  also have "\<dots> = ?r i"
    using i by (simp add: if_distrib [of "\<lambda>c. c * _"] sum.delta' cong: if_cong)
  finally show ?thesis .
qed

text \<open>
  What \<^verbatim>\<open>calcMinimum\<close> does with the library's answer: an error is passed on, a matrix
  of the right shape gives a result.
\<close>

lemma calcMinimum_raises:
  assumes "np_mat phi = Inr P" and "mat_mul P (mat_T P) = Inr G" and "linalg_inv G = Inl e"
  shows "calcMinimum linalg_inv phi data = Inl e"
  using assms by (simp add: calcMinimum_def)

lemma calcMinimum_steps:
  assumes "np_mat phi = Inr P" and "mat_mul P (mat_T P) = Inr G" and "linalg_inv G = Inr B"
    and "mat_mul B P = Inr T"
  shows "calcMinimum linalg_inv phi data = np_dot T (data_u data)"
  using assms by (simp add: calcMinimum_def)

text \<open>
  C5 as stated fails. The rows \<^verbatim>\<open>[1, 7]\<close> and \<^verbatim>\<open>[3, 21]\<close> are linearly dependent,
  the library returns a matrix at their cross-product, and \<^verbatim>\<open>calcMinimum\<close> returns a
  parameter vector: no error is raised.
\<close>

theorem dependent_rows_return:
  "rows_dependent (Mat 2 2 [[1, 7], [3, 21]]) \<and>
   calcMinimum inv_in_doubles (Arr2 [[1, 7], [3, 21]]) two_samples
     = Inr (Mat 1 2 [[0, 1 / 32]])"
proof -
  have dep: "rows_dependent (Mat 2 2 [[1, 7], [3, 21]])"
    unfolding rows_dependent_def
    by (intro exI [of _ "[3, -1]"]) (auto simp: combination_def ent_def eval_nat_numeral less_Suc_eq)
  have cross: "mat_mul (Mat 2 2 [[1, 7], [3, 21]]) (mat_T (Mat 2 2 [[1, 7], [3, 21]]))
      = Inr (Mat 2 2 [[50, 150], [150, 450]])"
    by (simp add: mat_mul_def mat_T_def ent_def eval_nat_numeral)
  have mat: "np_mat (Arr2 [[1, 7], [3, 21]]) = Inr (Mat 2 2 [[1, 7], [3, 21]])"
    by simp
  have inv: "inv_in_doubles (Mat 2 2 [[50, 150], [150, 450]])
      = Inr (Mat 2 2 [[105553116266496, - 35184372088832],
                      [- 35184372088832, 3002399751580331 / 256]])"
    by (simp add: inv_in_doubles_def)
  have prod: "mat_mul (Mat 2 2 [[105553116266496, - 35184372088832],
                                [- 35184372088832, 3002399751580331 / 256]])
                (Mat 2 2 [[1, 7], [3, 21]])
      = Inr (Mat 2 2 [[0, 0], [1 / 256, 7 / 256]])"
    by (simp add: mat_mul_def ent_def eval_nat_numeral)
  have "np_dot (Mat 2 2 [[0, 0], [1 / 256, 7 / 256]]) (data_u two_samples)
      = Inr (Mat 1 2 [[0, 1 / 32]])"
    by (simp add: np_dot_def ent_def two_samples_def eval_nat_numeral)
  with calcMinimum_steps [where linalg_inv = inv_in_doubles and data = two_samples,
      OF mat cross inv prod]
  have "calcMinimum inv_in_doubles (Arr2 [[1, 7], [3, 21]]) two_samples
      = Inr (Mat 1 2 [[0, 1 / 32]])"
    by simp
  with dep show ?thesis ..
qed

text \<open>
  C5, as the code has it. For every regressor with linearly dependent rows the
  cross-product \<^verbatim>\<open>phi * phi.T\<close> is singular, and \<^verbatim>\<open>calcMinimum\<close>, which has no rank
  or conditioning check of its own, does what \<^verbatim>\<open>numpy.linalg.inv\<close> does there: when
  the library raises, its error is the error of the call, nothing being caught or
  regularised; when the library returns a matrix, \<^verbatim>\<open>calcMinimum\<close> returns a parameter
  vector.
\<close>

theorem dependent_rows_follow_library:
  assumes "np_mat phi = Inr P" and "rows_dependent P"
  shows "\<exists>G. mat_mul P (mat_T P) = Inr G \<and> singular G \<and>
           (\<forall>e. linalg_inv G = Inl e \<longrightarrow> calcMinimum linalg_inv phi data = Inl e) \<and>
           (\<forall>B. linalg_inv G = Inr B \<and> ncols B = nrows P \<and>
                 length (data_u data) = ncols P \<longrightarrow>
                (\<exists>theta. calcMinimum linalg_inv phi data = Inr (Mat 1 (nrows B) [theta])))"
proof -
  obtain G where G: "mat_mul P (mat_T P) = Inr G"
    using cross_product [of P] by blast
  with assms(2) have "singular G" by (rule dependent_singular)
  moreover have "calcMinimum linalg_inv phi data = Inl e" if "linalg_inv G = Inl e" for e
    using assms(1) G that by (rule calcMinimum_raises)
  moreover have "\<exists>theta. calcMinimum linalg_inv phi data = Inr (Mat 1 (nrows B) [theta])"
    if "linalg_inv G = Inr B \<and> ncols B = nrows P \<and> length (data_u data) = ncols P" for B
    using calcMinimum_value [of phi P G linalg_inv B data] assms(1) G that by simp
  ultimately show ?thesis using G by blast
qed

text \<open>
  Two equal rows with an inverter that raises at the singular cross-product, and the rows
  \<^verbatim>\<open>[1, 7]\<close> and \<^verbatim>\<open>[3, 21]\<close> with the inverter that returns there.
\<close>

theorem dependent_rows_follow_library_witness:
  "calcMinimum small_inv (Arr2 [[1, 2], [1, 2]]) example_data
     = Inl (LinAlgError [''Singular matrix'']) \<and>
   (\<exists>theta. calcMinimum inv_in_doubles (Arr2 [[1, 7], [3, 21]]) two_samples
              = Inr (Mat 1 2 [theta]))"
proof -
  let ?P = "Mat 2 2 [[1, 2], [1, 2]]" and ?Q = "Mat 2 2 [[1, 7], [3, 21]]"
  have P: "np_mat (Arr2 [[1, 2], [1, 2]]) = Inr ?P" and Q: "np_mat (Arr2 [[1, 7], [3, 21]]) = Inr ?Q"
    by simp_all
  have depP: "rows_dependent ?P"
    unfolding rows_dependent_def
    by (intro exI [of _ "[1, -1]"]) (auto simp: combination_def ent_def eval_nat_numeral less_Suc_eq)
  have depQ: "rows_dependent ?Q"
    unfolding rows_dependent_def
    by (intro exI [of _ "[3, -1]"]) (auto simp: combination_def ent_def eval_nat_numeral less_Suc_eq)
  have crossP: "mat_mul ?P (mat_T ?P) = Inr (Mat 2 2 [[5, 5], [5, 5]])"
    and crossQ: "mat_mul ?Q (mat_T ?Q) = Inr (Mat 2 2 [[50, 150], [150, 450]])"
    by (simp_all add: mat_mul_def mat_T_def ent_def eval_nat_numeral)
  have "calcMinimum small_inv (Arr2 [[1, 2], [1, 2]]) example_data
      = Inl (LinAlgError [''Singular matrix''])"
    using dependent_rows_follow_library [OF P depP, of small_inv example_data]
    by (simp add: crossP)
  moreover have "\<exists>theta. calcMinimum inv_in_doubles (Arr2 [[1, 7], [3, 21]]) two_samples
      = Inr (Mat 1 2 [theta])"
    using dependent_rows_follow_library [OF Q depQ, of inv_in_doubles two_samples]
    by (simp add: crossQ inv_in_doubles_def two_samples_def)
  ultimately show ?thesis ..
qed

text \<open>
  C4. When the rows of the regressor \<open>P\<close> are linearly independent and \<^verbatim>\<open>data.u\<close> has
  one entry per column, \<^verbatim>\<open>calcMinimum\<close> returns a row \<open>\<theta>\<close> of one parameter per
  basis element whose squared residual norm \<open>\<parallel>P\<^sup>T \<theta> - u\<parallel>\<^sup>2\<close> is the least over all parameter
  vectors, and no other vector reaches it: \<open>\<theta>\<close> is the least-squares solution.
\<close>

theorem least_squares_minimum:
  assumes mat: "np_mat phi = Inr P"
    and len: "length (data_u data) = ncols P"
    and indep: "\<not> rows_dependent P"
    and lib: "\<forall>G. mat_mul P (mat_T P) = Inr G \<longrightarrow> inv_contract linalg_inv G"
  shows "\<exists>theta. calcMinimum linalg_inv phi data = Inr (Mat 1 (nrows P) [theta]) \<and>
           length theta = nrows P \<and>
           (\<forall>theta'. length theta' = nrows P \<longrightarrow>
              residual P (data_u data) theta \<le> residual P (data_u data) theta') \<and>
           (\<forall>theta'. length theta' = nrows P \<and>
              residual P (data_u data) theta' \<le> residual P (data_u data) theta \<longrightarrow> theta' = theta)"
proof -
  let ?k = "nrows P" and ?N = "ncols P" and ?u = "data_u data"
  obtain G where G: "mat_mul P (mat_T P) = Inr G" and Gdim: "nrows G = ?k" "ncols G = ?k"
    and Gent: "\<And>i j. i < ?k \<Longrightarrow> j < ?k \<Longrightarrow> ent G i j = (\<Sum>t<?N. ent P i t * ent P j t)"
    using cross_product [of P] by blast
  from indep G have "\<not> singular G" by (rule independent_regular)
  moreover from lib G have "inv_contract linalg_inv G" by blast
  ultimately obtain B where B: "linalg_inv G = Inr B" "nrows B = ?k" "ncols B = ?k"
      and GB: "mat_mul G B = Inr (identity ?k)"
    using Gdim by (auto simp: inv_contract_def)
  define theta where
    "theta = map (\<lambda>i. \<Sum>t<?N. (\<Sum>l<?k. ent B i l * ent P l t) * ?u ! t) [0 ..< ?k]"
  have val: "calcMinimum linalg_inv phi data = Inr (Mat 1 ?k [theta])"
    using calcMinimum_value [of phi P G linalg_inv B data] mat G B len
    by (simp add: theta_def)
  have length: "length theta = ?k"
    by (simp add: theta_def)
  have nth: "theta ! j = (\<Sum>t<?N. (\<Sum>l<?k. ent B j l * ent P l t) * ?u ! t)" if "j < ?k" for j
    using that by (simp add: theta_def)
  have inverse: "(\<Sum>j<?k. (\<Sum>t<?N. ent P i t * ent P j t) * ent B j l) = (if i = l then 1 else 0)"
    if "i < ?k" "l < ?k" for i l
  proof -
    have "(\<Sum>j<?k. (\<Sum>t<?N. ent P i t * ent P j t) * ent B j l) = (\<Sum>j<?k. ent G i j * ent B j l)"
      using that Gent by (intro sum.cong) simp_all
    also have "\<dots> = ent (identity ?k) i l"
      using mat_mul_Inr(5) [OF GB, of i l] that Gdim B by simp
    finally show ?thesis using that by (simp add: ent_identity)
  qed
  have normal: "(\<Sum>j<?k. (\<Sum>t<?N. ent P i t * ent P j t) * theta ! j) = (\<Sum>t<?N. ent P i t * ?u ! t)"
    if "i < ?k" for i
  proof -
    have "(\<Sum>j<?k. (\<Sum>t<?N. ent P i t * ent P j t) * theta ! j)
        = (\<Sum>j<?k. (\<Sum>t<?N. ent P i t * ent P j t) * (\<Sum>t<?N. (\<Sum>l<?k. ent B j l * ent P l t) * ?u ! t))"
      using nth by (intro sum.cong) simp_all
    also have "\<dots> = (\<Sum>t<?N. ent P i t * ?u ! t)"
      using inverse that by (rule normal_equations)
    finally show ?thesis .
  qed
  have gap: "residual P ?u theta' =
      residual P ?u theta + (\<Sum>t<?N. (\<Sum>i<?k. ent P i t * (theta' ! i - theta ! i))\<^sup>2)" for theta'
    unfolding residual_def combination_def
    using least_squares_core
      [where k = "nrows P" and N = "ncols P" and p = "ent P" and th = "\<lambda>i. theta ! i"
         and u = "\<lambda>t. data_u data ! t" and th' = "\<lambda>i. theta' ! i"]
      normal
    by simp
  have least: "residual P ?u theta \<le> residual P ?u theta'" for theta'
  proof -
    have "0 \<le> (\<Sum>t<?N. (\<Sum>i<?k. ent P i t * (theta' ! i - theta ! i))\<^sup>2)"
      by (rule sum_nonneg) simp
    with gap [of theta'] show ?thesis by linarith
  qed
  have unique: "theta' = theta"
    if "length theta' = ?k" and "residual P ?u theta' \<le> residual P ?u theta" for theta'
  proof -
    define c where "c = map (\<lambda>i. theta' ! i - theta ! i) [0 ..< ?k]"
    have c: "length c = ?k" "\<And>i. i < ?k \<Longrightarrow> c ! i = theta' ! i - theta ! i"
      by (simp_all add: c_def)
    have "(\<Sum>t<?N. (\<Sum>i<?k. ent P i t * (theta' ! i - theta ! i))\<^sup>2) \<le> 0"
      using that(2) gap [of theta'] by linarith
    moreover have "0 \<le> (\<Sum>t<?N. (\<Sum>i<?k. ent P i t * (theta' ! i - theta ! i))\<^sup>2)"
      by (rule sum_nonneg) simp
    ultimately have "(\<Sum>t<?N. (\<Sum>i<?k. ent P i t * (theta' ! i - theta ! i))\<^sup>2) = 0"
      by linarith
    then have "\<forall>t<?N. (\<Sum>i<?k. ent P i t * (theta' ! i - theta ! i)) = 0"
      by (simp add: sum_nonneg_eq_0_iff)
    moreover have "combination P c t = (\<Sum>i<?k. ent P i t * (theta' ! i - theta ! i))" for t
      unfolding combination_def using c(2) by (intro sum.cong) simp_all
    ultimately have "\<forall>t<?N. combination P c t = 0" by simp
    with indep c(1) have "\<forall>i<?k. c ! i = 0"
      unfolding rows_dependent_def by blast
    with c(2) have "\<forall>i<?k. theta' ! i = theta ! i" by simp
    with that(1) length show ?thesis
      by (intro nth_equalityI) simp_all
  qed
  from val length least unique show ?thesis by blast
qed

text \<open>Two independent rows over four samples, against the input of the example.\<close>

theorem least_squares_minimum_witness:
  "\<exists>theta. calcMinimum small_inv (Arr2 [[1, 0, 0, 1], [0, 1, 1, 0]]) example_data
             = Inr (Mat 1 2 [theta]) \<and>
           length theta = 2 \<and>
           (\<forall>theta'. length theta' = 2 \<longrightarrow>
              residual (Mat 2 4 [[1, 0, 0, 1], [0, 1, 1, 0]]) [1, 1, 1, 1] theta
                \<le> residual (Mat 2 4 [[1, 0, 0, 1], [0, 1, 1, 0]]) [1, 1, 1, 1] theta')"
proof -
  let ?P = "Mat 2 4 [[1, 0, 0, 1], [0, 1, 1, 0]]"
  let ?G = "Mat 2 2 [[2, 0], [0, 2]]"
  have mat: "np_mat (Arr2 [[1, 0, 0, 1], [0, 1, 1, 0]]) = Inr ?P"
    by simp
  have len: "length (data_u example_data) = ncols ?P"
    by (simp add: example_data_def)
  have indep: "\<not> rows_dependent ?P"
  proof
    assume "rows_dependent ?P"
    then obtain c where c: "\<exists>i<2. c ! i \<noteq> 0" "\<forall>t<4. combination ?P c t = 0"
      by (auto simp: rows_dependent_def)
    from c(2) have "combination ?P c 0 = 0" "combination ?P c 1 = 0" by simp_all
    then have "c ! 0 = 0" "c ! 1 = 0"
      by (simp_all add: combination_def ent_def eval_nat_numeral)
    with c(1) show False
      by (auto simp: eval_nat_numeral less_Suc_eq)
  qed
  have cross: "mat_mul ?P (mat_T ?P) = Inr ?G"
    by (simp add: mat_mul_def mat_T_def ent_def eval_nat_numeral)
  have regular: "\<not> singular ?G"
  proof
    assume "singular ?G"
    then obtain x where x: "\<exists>j<2. x ! j \<noteq> 0" "\<forall>i<2. (\<Sum>j<2. ent ?G i j * x ! j) = 0"
      by (auto simp: singular_def)
    from x(2) have "(\<Sum>j<2. ent ?G 0 j * x ! j) = 0" "(\<Sum>j<2. ent ?G 1 j * x ! j) = 0"
      by simp_all
    then have "x ! 0 = 0" "x ! 1 = 0"
      by (simp_all add: ent_def eval_nat_numeral)
    with x(1) show False
      by (auto simp: eval_nat_numeral less_Suc_eq)
  qed
  have inverse: "mat_mul ?G (Mat 2 2 [[2 / 4, - 0 / 4], [- 0 / 4, 2 / 4]]) = Inr (identity 2)"
    by (simp add: mat_mul_def identity_def ent_def eval_nat_numeral)
  have lib: "\<forall>G. mat_mul ?P (mat_T ?P) = Inr G \<longrightarrow> inv_contract small_inv G"
    using regular inverse by (simp add: cross inv_contract_def wf_mat_def)
  have u: "data_u example_data = [1, 1, 1, 1]"
    by (simp add: example_data_def)
  from least_squares_minimum [OF mat len indep lib] obtain theta
    where "calcMinimum small_inv (Arr2 [[1, 0, 0, 1], [0, 1, 1, 0]]) example_data
             = Inr (Mat 1 2 [theta])"
      and "length theta = 2"
      and "\<forall>theta'. length theta' = 2 \<longrightarrow>
              residual ?P [1, 1, 1, 1] theta \<le> residual ?P [1, 1, 1, 1] theta'"
    unfolding u by auto
  then show ?thesis by blast
qed

section \<open>The virtual reference\<close>

text \<open>
  C8. \<^verbatim>\<open>virtual_reference\<close> raises \<^verbatim>\<open>ValueError\<close> (the specification's
  \<^verbatim>\<open>ValidationError\<close>) whenever numerator or denominator is no coefficient sequence,
  the pair is no valid system description, or the system has order 0, and that for every
  data argument and every simulator.
\<close>

theorem virtual_reference_rejects_degenerate:
  assumes "coefficients num = None \<or> coefficients den = None \<or>
           (\<exists>n d. coefficients num = Some n \<and> coefficients den = Some d \<and>
                  (\<not> valid_system n d \<or> system_order d = 0))"
  shows "\<exists>args. virtual_reference simulate data num den = Inl (ValueError args)"
  using assms by (auto simp: virtual_reference_def split: option.splits)

text \<open>
  The calls of \<^verbatim>\<open>test_virtual_reference_basic\<close>: two scalars, two sequences of one
  coefficient, two arrays of dimension zero; and a numerator that is no sequence at all.
\<close>

theorem virtual_reference_rejects_degenerate_witness:
  "(\<exists>args. virtual_reference stub_simulate (PyInt 0) (PyInt 1) (PyInt 1) = Inl (ValueError args)) \<and>
   (\<exists>args. virtual_reference stub_simulate (PyInt 0) (PyList [PyInt 1]) (PyList [PyInt 1])
             = Inl (ValueError args)) \<and>
   (\<exists>args. virtual_reference stub_simulate (PyInt 0) (PyArray0 2) (PyArray0 3)
             = Inl (ValueError args)) \<and>
   (\<exists>args. virtual_reference stub_simulate (Iddata example_data) PyNone (PyList [PyInt 1, PyInt 1])
             = Inl (ValueError args))"
  using virtual_reference_rejects_degenerate [of "PyInt 1" "PyInt 1" stub_simulate "PyInt 0"]
    virtual_reference_rejects_degenerate
      [of "PyList [PyInt 1]" "PyList [PyInt 1]" stub_simulate "PyInt 0"]
    virtual_reference_rejects_degenerate [of "PyArray0 2" "PyArray0 3" stub_simulate "PyInt 0"]
    virtual_reference_rejects_degenerate
      [of PyNone "PyList [PyInt 1, PyInt 1]" stub_simulate "Iddata example_data"]
  by (simp add: system_order_def)






text \<open>The difference equation: sums of products, and the shape of a run.\<close>

lemma dot_Nil [simp]: "dot [] ys = 0" "dot xs [] = 0"
  by (simp_all add: dot_def)

lemma dot_Cons [simp]: "dot (x # xs) (y # ys) = x * y + dot xs ys"
  by (simp add: dot_def)

lemma dot_zeros [simp]: "dot (replicate k 0) ys = 0"
proof (induction k arbitrary: ys)
  case (Suc k)
  then show ?case by (cases ys) simp_all
qed simp














end
